theory Spec2Isabelle
  imports Complex_Main
begin

section \<open>Python values and exceptions\<close>

text \<open>
  Amounts, prices and wall-clock timestamps are Python floats in the source; they are
  modelled as \<open>real\<close> (finite values, exact arithmetic), except the amount and the
  slippage of an order, which the validation compares with constants: these are
  \<open>py_float\<close>, with the infinities and NaN. Integer fields are \<open>int\<close>,
  strings are \<open>string\<close> with \<open>length\<close> standing for Python's \<open>len\<close>.
  An exception raised inside a \<open>try\<close> block is a value \<open>Inl e\<close>; the handler of the
  source is the case distinction on it.
\<close>

datatype py_exception =
    KeyError string
  | ValueError string
  | UnicodeEncodeError
  | ZeroDivisionError

text \<open>\<open>d.get(key, default)\<close> on a dictionary whose key may be absent.\<close>

definition dict_get :: "'a option \<Rightarrow> 'a \<Rightarrow> 'a" where
  "dict_get v dflt = (case v of None \<Rightarrow> dflt | Some x \<Rightarrow> x)"

text \<open>\<open>d[key]\<close>: raises \<open>KeyError\<close> when the key is absent.\<close>

definition dict_item :: "string \<Rightarrow> 'a option \<Rightarrow> py_exception + 'a" where
  "dict_item k v = (case v of None \<Rightarrow> Inl (KeyError k) | Some x \<Rightarrow> Inr x)"

text \<open>Float division \<open>a / b\<close>: raises \<open>ZeroDivisionError\<close> when \<open>b\<close> is zero.\<close>

definition py_truediv :: "real \<Rightarrow> real \<Rightarrow> py_exception + real" where
  "py_truediv a b = (if b = 0 then Inl ZeroDivisionError else Inr (a / b))"

text \<open>
  A float that may be infinite or NaN, with the two comparisons against a finite constant
  that the validation makes: \<open>x <= c\<close> and \<open>x > c\<close>. Both are false for NaN.
\<close>

datatype py_float = Finite real | PosInf | NegInf | NaN

fun float_le :: "py_float \<Rightarrow> real \<Rightarrow> bool" where
  "float_le (Finite x) c = (x \<le> c)"
| "float_le PosInf c = False"
| "float_le NegInf c = True"
| "float_le NaN c = False"

fun float_gt :: "py_float \<Rightarrow> real \<Rightarrow> bool" where
  "float_gt (Finite x) c = (x > c)"
| "float_gt PosInf c = True"
| "float_gt NegInf c = False"
| "float_gt NaN c = False"

section \<open>The base58 decoder used by the address checks\<close>

text \<open>
  The three services call \<open>base58.b58decode\<close> of the \<open>base58\<close> package. The decoder
  drops trailing whitespace, encodes the text as ASCII, counts and drops the leading
  \<open>1\<close> characters, reads the rest as a number in base 58 over the Bitcoin alphabet
  (raising \<open>ValueError\<close> at a character outside it) and returns one zero byte for each
  leading \<open>1\<close> followed by the big-endian bytes of the number.
\<close>

definition BITCOIN_ALPHABET :: string where
  "BITCOIN_ALPHABET = ''123456789ABCDEFGHJKLMNPQRSTUVWXYZabcdefghijkmnopqrstuvwxyz''"

text \<open>The characters \<open>str.isspace\<close> accepts, among the code points below 256.\<close>

definition py_whitespace :: string where
  "py_whitespace = [CHR 0x09, CHR 0x0A, CHR 0x0B, CHR 0x0C, CHR 0x0D,
                    CHR 0x1C, CHR 0x1D, CHR 0x1E, CHR 0x1F, CHR 0x20, CHR 0x85, CHR 0xA0]"

definition py_isspace :: "char \<Rightarrow> bool" where
  "py_isspace c = (c \<in> set py_whitespace)"

definition rstrip :: "string \<Rightarrow> string" where
  "rstrip v = rev (dropWhile py_isspace (rev v))"

definition is_ascii :: "char \<Rightarrow> bool" where
  "is_ascii c = (of_char c < (128::nat))"

definition scrub_input :: "string \<Rightarrow> py_exception + string" where
  "scrub_input v = (if list_all is_ascii v then Inr v else Inl UnicodeEncodeError)"

primrec index_of :: "'a list \<Rightarrow> 'a \<Rightarrow> nat option" where
  "index_of [] x = None"
| "index_of (y # ys) x = (if x = y then Some 0 else map_option Suc (index_of ys x))"

text \<open>The loop \<open>decimal = decimal * base + map[char]\<close> of \<open>b58decode_int\<close>.\<close>

fun b58decode_loop :: "nat \<Rightarrow> string \<Rightarrow> py_exception + nat" where
  "b58decode_loop decimal [] = Inr decimal"
| "b58decode_loop decimal (c # cs) =
     (case index_of BITCOIN_ALPHABET c of
        None \<Rightarrow> Inl (ValueError ''Invalid character'')
      | Some i \<Rightarrow> b58decode_loop (decimal * 58 + i) cs)"

definition b58decode_int :: "string \<Rightarrow> py_exception + nat" where
  "b58decode_int v = b58decode_loop 0 v"

fun int_to_bytes_le :: "nat \<Rightarrow> nat list" where
  "int_to_bytes_le n = (if n = 0 then [] else (n mod 256) # int_to_bytes_le (n div 256))"

declare int_to_bytes_le.simps [simp del]

text \<open>\<open>acc.to_bytes(zeros + (acc.bit_length() + 7) // 8, 'big')\<close>.\<close>

definition to_bytes_big :: "nat \<Rightarrow> nat \<Rightarrow> nat list" where
  "to_bytes_big zeros acc = replicate zeros 0 @ rev (int_to_bytes_le acc)"

definition b58decode :: "string \<Rightarrow> py_exception + nat list" where
  "b58decode v =
     (case scrub_input (rstrip v) of
        Inl e \<Rightarrow> Inl e
      | Inr v1 \<Rightarrow>
          (let origlen = length v1;
               v2 = dropWhile (\<lambda>c. c = CHR ''1'') v1;
               newlen = length v2
           in case b58decode_int v2 of
                Inl e \<Rightarrow> Inl e
              | Inr acc \<Rightarrow> Inr (to_bytes_big (origlen - newlen) acc)))"

section \<open>Address validation\<close>

text \<open>
  \<open>_validate_token_mint\<close> and \<open>_validate_wallet_address\<close> have the same body in
  \<open>trading_service.py\<close>, \<open>sniper_service.py\<close> and \<open>copy_trade_service.py\<close>: the length
  test, then the decoder inside \<open>try\<close>, with every exception turned into \<open>False\<close>.
\<close>

definition validate_token_mint :: "string \<Rightarrow> bool" where
  "validate_token_mint token_mint =
     (if length token_mint \<noteq> 44 then False
      else case b58decode token_mint of Inl e \<Rightarrow> False | Inr bs \<Rightarrow> True)"

definition validate_wallet_address :: "string \<Rightarrow> bool" where
  "validate_wallet_address wallet_address =
     (if length wallet_address \<noteq> 44 then False
      else case b58decode wallet_address of Inl e \<Rightarrow> False | Inr bs \<Rightarrow> True)"

text \<open>
  The reading of the specification: the text is the base-58 encoding of a public key of
  exactly 32 bytes.
\<close>

definition encodes_32_byte_key :: "string \<Rightarrow> bool" where
  "encodes_32_byte_key v = (case b58decode v of Inl e \<Rightarrow> False | Inr bs \<Rightarrow> length bs = 32)"

section \<open>Orders and the trading service\<close>

datatype OrderStatus = PENDING | EXECUTED | FAILED | CANCELLED

datatype OrderType = BUY | SELL

text \<open>
  The wire numbers of the status enumeration. The source fixes \<open>PENDING = 0\<close>
  (\<open>if status != 0:  # Not PENDING\<close>) and \<open>EXECUTED = 1\<close> (the status passed by
  \<open>_calculate_profit_loss\<close>); the other two follow in the order of the enumeration.
\<close>

fun status_value :: "OrderStatus \<Rightarrow> int" where
  "status_value PENDING = 0"
| "status_value EXECUTED = 1"
| "status_value FAILED = 2"
| "status_value CANCELLED = 3"

record Order =
  order_id :: string
  token_mint :: string
  amount :: py_float
  order_type :: OrderType
  slippage :: py_float
  priority_fee :: int
  compute_unit_limit :: int
  cluster :: int
  wallet_address :: string
  status :: OrderStatus
  timestamp :: int
  executed_price :: real
  executed_amount :: real
  signature :: string

record OrderResponse =
  success :: bool
  message :: string
  resp_order_id :: string
  resp_signature :: string
  compute_units_used :: int
  total_cost :: real

text \<open>A response built from \<open>success\<close> and \<open>message\<close> alone; the other fields keep
  their protobuf defaults.\<close>

definition response :: "bool \<Rightarrow> string \<Rightarrow> OrderResponse" where
  "response ok msg =
     \<lparr>success = ok, message = msg, resp_order_id = [], resp_signature = [],
      compute_units_used = 0, total_cost = 0\<rparr>"

text \<open>
  The state of the service that the claims are about: the \<open>orders\<close> table of the
  database (rows in insertion order) and the cache (key \<open>order:<id>\<close>, value the
  serialised order). Serialising and parsing an order give the order back. A call of
  the database or of the cache either returns or raises; its outcome is a parameter of
  the function that makes the call.
\<close>

record trading_state =
  orders_table :: "Order list"
  redis :: "string \<Rightarrow> Order option"

definition initial_trading_state :: trading_state where
  "initial_trading_state = \<lparr>orders_table = [], redis = Map.empty\<rparr>"

definition order_key :: "string \<Rightarrow> string" where
  "order_key oid = ''order:'' @ oid"

datatype call_outcome = Returns | Raises string

text \<open>The outcomes of the two calls of \<open>_store_order\<close> and of \<open>_update_order\<close>, and of
  the three calls of \<open>_get_order\<close>.\<close>

record write_outcomes =
  db_execute :: call_outcome
  redis_set :: call_outcome

record read_outcomes =
  redis_get :: call_outcome
  db_fetch_one :: call_outcome
  redis_fill :: call_outcome

record validation_result =
  valid :: bool
  validation_message :: string

definition validate_order :: "Order \<Rightarrow> validation_result" where
  "validate_order order =
     (if \<not> validate_token_mint (token_mint order)
        then \<lparr>valid = False, validation_message = ''Invalid token mint address''\<rparr>
      else if float_le (amount order) 0
        then \<lparr>valid = False, validation_message = ''Amount must be positive''\<rparr>
      else if float_le (slippage order) 0 \<or> float_gt (slippage order) 0.5
        then \<lparr>valid = False, validation_message = ''Slippage must be between 0 and 50%''\<rparr>
      else if \<not> validate_wallet_address (wallet_address order)
        then \<lparr>valid = False, validation_message = ''Invalid wallet address''\<rparr>
      else \<lparr>valid = True, validation_message = ''Order is valid''\<rparr>)"

text \<open>
  The risk manager (\<open>utils.risk_manager\<close>) is a collaborator outside the sources: its
  answer to \<open>check_order_risk\<close> is a parameter, either the dictionary
  \<open>{allowed, reason}\<close> or an exception.
\<close>

datatype risk_check = RiskResult (allowed: bool) (reason: string) | RiskRaises string

text \<open>
  The chain client's answer to \<open>send_transaction\<close>: a dictionary whose keys may be
  absent, or an exception raised by any of the three calls of \<open>_execute_order\<close>.
\<close>

record tx_result =
  tx_success :: bool
  tx_signature :: "string option"
  tx_executed_price :: "real option"
  tx_executed_amount :: "real option"
  tx_compute_units_used :: "int option"
  tx_total_cost :: "real option"
  tx_error :: "string option"

datatype chain_answer = ChainReturns tx_result | ChainRaises string

datatype execution_result =
    ExecSuccess string real real int real
  | ExecFailure string

text \<open>\<open>str(e)\<close> for the \<open>KeyError\<close> of a missing key: the key between single
  quotes.\<close>

definition key_error_text :: "string \<Rightarrow> string" where
  "key_error_text k = [CHR 0x27] @ k @ [CHR 0x27]"

text \<open>
  \<open>_execute_order\<close>: every exception inside it, also the \<open>KeyError\<close> of a key that
  the answer lacks, is turned into a failure with the text of the exception.
\<close>

definition execute_order :: "chain_answer \<Rightarrow> execution_result" where
  "execute_order answer =
     (case answer of
        ChainRaises e \<Rightarrow> ExecFailure e
      | ChainReturns tx \<Rightarrow>
          if tx_success tx then
            (case tx_signature tx of None \<Rightarrow> ExecFailure (key_error_text ''signature'')
             | Some sg \<Rightarrow>
            (case tx_executed_price tx of None \<Rightarrow> ExecFailure (key_error_text ''executed_price'')
             | Some p \<Rightarrow>
            (case tx_executed_amount tx of None \<Rightarrow> ExecFailure (key_error_text ''executed_amount'')
             | Some a \<Rightarrow>
            (case tx_compute_units_used tx of
               None \<Rightarrow> ExecFailure (key_error_text ''compute_units_used'')
             | Some cu \<Rightarrow>
            (case tx_total_cost tx of None \<Rightarrow> ExecFailure (key_error_text ''total_cost'')
             | Some tc \<Rightarrow> ExecSuccess sg p a cu tc)))))
          else
            (case tx_error tx of None \<Rightarrow> ExecFailure (key_error_text ''error'')
             | Some err \<Rightarrow> ExecFailure err))"

text \<open>
  \<open>_store_order\<close>: \<open>INSERT INTO orders\<close>, then the cache entry. An exception of either
  call is logged and raised again: the result is the message of the exception, if any,
  and the state the call leaves, in which an insert that returned stays done.
\<close>

definition store_order ::
  "trading_state \<Rightarrow> Order \<Rightarrow> write_outcomes \<Rightarrow> string option \<times> trading_state" where
  "store_order s order io =
     (case db_execute io of
        Raises e \<Rightarrow> (Some e, s)
      | Returns \<Rightarrow>
          (let s1 = s\<lparr>orders_table := orders_table s @ [order]\<rparr>
           in case redis_set io of
                Raises e \<Rightarrow> (Some e, s1)
              | Returns \<Rightarrow>
                  (None, s1\<lparr>redis := (redis s1)(order_key (order_id order) \<mapsto> order)\<rparr>)))"

text \<open>
  \<open>_update_order\<close>: \<open>UPDATE orders SET status, executed_price, executed_amount,
  signature WHERE order_id\<close>, with no condition on the status the row has, then the cache
  entry. An exception of either call is raised again; an update that returned stays done.
\<close>

definition update_row :: "Order \<Rightarrow> Order \<Rightarrow> Order" where
  "update_row order row =
     (if order_id row = order_id order
      then row\<lparr>status := status order, executed_price := executed_price order,
               executed_amount := executed_amount order, signature := signature order\<rparr>
      else row)"

definition update_order ::
  "trading_state \<Rightarrow> Order \<Rightarrow> write_outcomes \<Rightarrow> string option \<times> trading_state" where
  "update_order s order io =
     (case db_execute io of
        Raises e \<Rightarrow> (Some e, s)
      | Returns \<Rightarrow>
          (let s1 = s\<lparr>orders_table := map (update_row order) (orders_table s)\<rparr>
           in case redis_set io of
                Raises e \<Rightarrow> (Some e, s1)
              | Returns \<Rightarrow>
                  (None, s1\<lparr>redis := (redis s1)(order_key (order_id order) \<mapsto> order)\<rparr>)))"

text \<open>
  \<open>_get_order\<close>: the cache first, then the first row of the table with the id, which is
  then cached. An exception of any of the three calls is logged and the result is
  \<open>None\<close>.
\<close>

definition get_order ::
  "trading_state \<Rightarrow> string \<Rightarrow> read_outcomes \<Rightarrow> Order option \<times> trading_state" where
  "get_order s oid io =
     (case redis_get io of
        Raises e \<Rightarrow> (None, s)
      | Returns \<Rightarrow>
          (case redis s (order_key oid) of
             Some cached_order \<Rightarrow> (Some cached_order, s)
           | None \<Rightarrow>
               (case db_fetch_one io of
                  Raises e \<Rightarrow> (None, s)
                | Returns \<Rightarrow>
                    (case find (\<lambda>row. order_id row = oid) (orders_table s) of
                       None \<Rightarrow> (None, s)
                     | Some order \<Rightarrow>
                         (case redis_fill io of
                            Raises e \<Rightarrow> (None, s)
                          | Returns \<Rightarrow>
                              (Some order,
                               s\<lparr>redis := (redis s)(order_key oid \<mapsto> order)\<rparr>))))))"

text \<open>
  \<open>PlaceOrder\<close>. The fresh identifier (\<open>uuid.uuid4()\<close>) and the clock reading are
  parameters, as are the answers of the risk manager and of the chain client. The
  coroutine is suspended at \<open>await self._execute_order(request)\<close> until the chain client
  has answered, and other handlers run meanwhile, so it is given in two parts: up to that
  point, where it has either answered or holds its \<open>request\<close> object, and from that
  point on. \<open>PlaceOrder\<close> is the call that nothing interrupts.
\<close>

datatype placement = Answered OrderResponse | AwaitsExecution Order

definition place_order_until_execution ::
  "trading_state \<Rightarrow> Order \<Rightarrow> string \<Rightarrow> int \<Rightarrow> risk_check \<Rightarrow> write_outcomes
     \<Rightarrow> placement \<times> trading_state" where
  "place_order_until_execution s request0 uuid now risk io =
     (let request = request0\<lparr>order_id := uuid, timestamp := now, status := PENDING\<rparr>;
          validation = validate_order request
      in if \<not> valid validation
         then (Answered (response False (validation_message validation)), s)
         else case risk of
           RiskRaises e \<Rightarrow> (Answered (response False (''Internal error: '' @ e)), s)
         | RiskResult ok why \<Rightarrow>
             if \<not> ok then (Answered (response False (''Risk limit exceeded: '' @ why)), s)
             else
               (case store_order s request io of
                  (Some e, s1) \<Rightarrow> (Answered (response False (''Internal error: '' @ e)), s1)
                | (None, s1) \<Rightarrow> (AwaitsExecution request, s1)))"

definition place_order_after_execution ::
  "trading_state \<Rightarrow> Order \<Rightarrow> chain_answer \<Rightarrow> write_outcomes
     \<Rightarrow> OrderResponse \<times> trading_state" where
  "place_order_after_execution s request answer io =
     (case execute_order answer of
        ExecSuccess sg p a cu tc \<Rightarrow>
          (let request1 = request\<lparr>status := EXECUTED, signature := sg,
                                  executed_price := p, executed_amount := a\<rparr>
           in case update_order s request1 io of
                (Some e, s2) \<Rightarrow> (response False (''Internal error: '' @ e), s2)
              | (None, s2) \<Rightarrow>
                  (\<lparr>success = True, message = ''Order executed successfully'',
                    resp_order_id = order_id request, resp_signature = sg,
                    compute_units_used = cu, total_cost = tc\<rparr>, s2))
      | ExecFailure err \<Rightarrow>
          (let request1 = request\<lparr>status := FAILED\<rparr>
           in case update_order s request1 io of
                (Some e, s2) \<Rightarrow> (response False (''Internal error: '' @ e), s2)
              | (None, s2) \<Rightarrow> (response False (''Order execution failed: '' @ err), s2)))"

definition PlaceOrder ::
  "trading_state \<Rightarrow> Order \<Rightarrow> string \<Rightarrow> int \<Rightarrow> risk_check \<Rightarrow> chain_answer
     \<Rightarrow> write_outcomes \<Rightarrow> write_outcomes \<Rightarrow> OrderResponse \<times> trading_state" where
  "PlaceOrder s request0 uuid now risk answer io_store io_update =
     (case place_order_until_execution s request0 uuid now risk io_store of
        (Answered resp, s1) \<Rightarrow> (resp, s1)
      | (AwaitsExecution request, s1) \<Rightarrow>
          place_order_after_execution s1 request answer io_update)"

text \<open>\<open>_cancel_order_on_solana\<close>: in the source it returns \<open>{"success": True}\<close>.\<close>

record cancellation_result =
  cancel_success :: bool
  cancel_error :: string

definition cancel_order_on_solana :: "Order \<Rightarrow> cancellation_result" where
  "cancel_order_on_solana order = \<lparr>cancel_success = True, cancel_error = []\<rparr>"

text \<open>\<open>CancelOrder\<close>: the status it tests is the one \<open>_get_order\<close> returns, from the
  cache when the cache has the order.\<close>

definition CancelOrder ::
  "trading_state \<Rightarrow> string \<Rightarrow> read_outcomes \<Rightarrow> write_outcomes
     \<Rightarrow> OrderResponse \<times> trading_state" where
  "CancelOrder s oid io_read io_update =
     (case get_order s oid io_read of
        (None, s1) \<Rightarrow> (response False ''Order not found'', s1)
      | (Some order, s1) \<Rightarrow>
          if status order \<noteq> PENDING then (response False ''Order cannot be cancelled'', s1)
          else
            (let cancellation = cancel_order_on_solana order
             in if cancel_success cancellation
                then (case update_order s1 (order\<lparr>status := CANCELLED\<rparr>) io_update of
                        (Some e, s2) \<Rightarrow> (response False (''Internal error: '' @ e), s2)
                      | (None, s2) \<Rightarrow> (response True ''Order cancelled successfully'', s2))
                else (response False (''Failed to cancel order: '' @ cancel_error cancellation),
                      s1)))"

text \<open>\<open>GetOrder\<close>: \<open>None\<close> stands for the \<open>NOT_FOUND\<close> abort.\<close>

definition GetOrder ::
  "trading_state \<Rightarrow> string \<Rightarrow> read_outcomes \<Rightarrow> Order option \<times> trading_state" where
  "GetOrder s oid io = get_order s oid io"

text \<open>
  \<open>_get_orders\<close> builds a query from the clauses its arguments switch on and runs it
  with \<open>fetch_all\<close>. The query is a record of the optional clauses; \<open>fetch_all_orders\<close>
  is its SQL reading: the rows that satisfy every clause, by descending timestamp (rows
  with equal timestamps keep their insertion order), \<open>OFFSET\<close> rows skipped, at most
  \<open>LIMIT\<close> rows taken.
\<close>

record orders_query =
  q_wallet_address :: string
  q_status :: "int option"
  q_start_time :: "int option"
  q_end_time :: "int option"
  q_limit :: "int option"
  q_offset :: "int option"

definition row_matches :: "orders_query \<Rightarrow> Order \<Rightarrow> bool" where
  "row_matches q row =
     (wallet_address row = q_wallet_address q
      \<and> (case q_status q of None \<Rightarrow> True | Some st \<Rightarrow> status_value (status row) = st)
      \<and> (case q_start_time q of None \<Rightarrow> True | Some t \<Rightarrow> timestamp row \<ge> t)
      \<and> (case q_end_time q of None \<Rightarrow> True | Some t \<Rightarrow> timestamp row \<le> t))"

definition fetch_all_orders :: "orders_query \<Rightarrow> Order list \<Rightarrow> Order list" where
  "fetch_all_orders q tbl =
     (let rows0 = filter (row_matches q) tbl;
          rows1 = sort_key (\<lambda>row. - timestamp row) rows0;
          rows2 = (case q_offset q of None \<Rightarrow> rows1 | Some n \<Rightarrow> drop (nat n) rows1)
      in case q_limit q of None \<Rightarrow> rows2 | Some n \<Rightarrow> take (nat n) rows2)"

definition get_orders ::
  "trading_state \<Rightarrow> string \<Rightarrow> int \<Rightarrow> int \<Rightarrow> int \<Rightarrow> int \<Rightarrow> int \<Rightarrow> Order list" where
  "get_orders s wallet st start_time end_time limit offset =
     fetch_all_orders
       \<lparr>q_wallet_address = wallet,
        q_status = (if st \<noteq> 0 then Some st else None),
        q_start_time = (if start_time > 0 then Some start_time else None),
        q_end_time = (if end_time > 0 then Some end_time else None),
        q_limit = (if limit > 0 then Some limit else None),
        q_offset = (if offset > 0 then Some offset else None)\<rparr>
       (orders_table s)"

record OrdersResponse =
  orders :: "Order list"
  total_count :: int

definition GetOrders ::
  "trading_state \<Rightarrow> string \<Rightarrow> int \<Rightarrow> int \<Rightarrow> int \<Rightarrow> int \<Rightarrow> int \<Rightarrow> OrdersResponse" where
  "GetOrders s wallet st start_time end_time limit offset =
     (let found = get_orders s wallet st start_time end_time limit offset
      in \<lparr>orders = found, total_count = int (length found)\<rparr>)"

text \<open>
  \<open>_calculate_profit_loss\<close>: the loop over the executed orders carries
  \<open>(total_profit, total_invested)\<close>; the body of the \<open>try\<close> returns the dictionary or the
  exception, the handler turns an exception into zeros.
\<close>

record profit_info =
  total_profit :: real
  total_profit_percentage :: real

fun profit_loop :: "real \<times> real \<Rightarrow> Order list \<Rightarrow> real \<times> real" where
  "profit_loop (tp, ti) [] = (tp, ti)"
| "profit_loop (tp, ti) (order # rest) =
     (if order_type order = BUY
        then profit_loop (tp, ti + executed_amount order * executed_price order) rest
      else if order_type order = SELL
        then profit_loop (tp + (executed_amount order * executed_price order - ti), ti) rest
      else profit_loop (tp, ti) rest)"

definition total_invested :: "trading_state \<Rightarrow> string \<Rightarrow> real" where
  "total_invested s wallet = snd (profit_loop (0, 0) (get_orders s wallet 1 0 0 0 0))"

definition calculate_profit_loss_try :: "trading_state \<Rightarrow> string \<Rightarrow> py_exception + profit_info" where
  "calculate_profit_loss_try s wallet =
     (case profit_loop (0, 0) (get_orders s wallet 1 0 0 0 0) of
        (tp, ti) \<Rightarrow>
          (case (if ti > 0
                 then (case py_truediv tp ti of Inl e \<Rightarrow> Inl e | Inr q \<Rightarrow> Inr (q * 100))
                 else Inr 0) of
             Inl e \<Rightarrow> Inl e
           | Inr pct \<Rightarrow> Inr \<lparr>total_profit = tp, total_profit_percentage = pct\<rparr>))"

definition calculate_profit_loss :: "trading_state \<Rightarrow> string \<Rightarrow> profit_info" where
  "calculate_profit_loss s wallet =
     (case calculate_profit_loss_try s wallet of
        Inl e \<Rightarrow> \<lparr>total_profit = 0, total_profit_percentage = 0\<rparr>
      | Inr info \<Rightarrow> info)"

section \<open>The sniper service\<close>

text \<open>
  The token information is a dictionary read with \<open>get(key, default)\<close>: a key may be
  absent. A present value has the type the chain client gives it.
\<close>

record token_info =
  liquidity :: "real option"
  is_verified :: "bool option"
  is_honeypot :: "bool option"
  price :: "real option"

definition is_good_opportunity :: "token_info \<Rightarrow> bool" where
  "is_good_opportunity info =
     (if dict_get (liquidity info) 0 < 1000 then False
      else if \<not> dict_get (is_verified info) False then False
      else if dict_get (is_honeypot info) False then False
      else True)"

record SniperConfig =
  req_wallet_address :: string
  req_private_key :: string
  req_target_tokens :: "string list"
  req_buy_amount :: real
  req_max_slippage :: real
  req_profit_target :: real
  req_stop_loss :: real
  req_auto_sell :: bool
  req_compute_unit_limit :: int
  req_cluster :: int
  req_rpc_url :: string

record sniper_config =
  sniper_id :: string
  sniper_wallet_address :: string
  sniper_private_key :: string
  target_tokens :: "string list"
  buy_amount :: real
  max_slippage :: real
  profit_target :: real
  stop_loss :: real
  auto_sell :: bool
  sniper_compute_unit_limit :: int
  sniper_cluster :: int
  sniper_rpc_url :: string
  sniper_start_time :: real
  sniper_is_running :: bool
  successful_snipes :: int
  failed_snipes :: int
  sniper_total_profit :: real

record SniperResponse =
  sniper_success :: bool
  sniper_message :: string
  resp_sniper_id :: string

text \<open>The registry \<open>active_snipers\<close> and the \<open>snipers\<close> table of the database.\<close>

record sniper_state =
  active_snipers :: "string \<Rightarrow> sniper_config option"
  snipers_table :: "sniper_config list"

definition initial_sniper_state :: sniper_state where
  "initial_sniper_state = \<lparr>active_snipers = Map.empty, snipers_table = []\<rparr>"

definition store_sniper_config :: "sniper_state \<Rightarrow> sniper_config \<Rightarrow> sniper_state" where
  "store_sniper_config s config = s\<lparr>snipers_table := snipers_table s @ [config]\<rparr>"

definition StartSniper ::
  "sniper_state \<Rightarrow> SniperConfig \<Rightarrow> string \<Rightarrow> real \<Rightarrow> SniperResponse \<times> sniper_state" where
  "StartSniper s request uuid now =
     (if \<not> validate_wallet_address (req_wallet_address request)
      then (\<lparr>sniper_success = False, sniper_message = ''Invalid wallet address'',
             resp_sniper_id = []\<rparr>, s)
      else
        (let config =
               \<lparr>sniper_id = uuid,
                sniper_wallet_address = req_wallet_address request,
                sniper_private_key = req_private_key request,
                target_tokens = req_target_tokens request,
                buy_amount = req_buy_amount request,
                max_slippage = req_max_slippage request,
                profit_target = req_profit_target request,
                stop_loss = req_stop_loss request,
                auto_sell = req_auto_sell request,
                sniper_compute_unit_limit = req_compute_unit_limit request,
                sniper_cluster = req_cluster request,
                sniper_rpc_url = req_rpc_url request,
                sniper_start_time = now,
                sniper_is_running = True,
                successful_snipes = 0,
                failed_snipes = 0,
                sniper_total_profit = 0\<rparr>;
             s1 = store_sniper_config s config
         in (\<lparr>sniper_success = True, sniper_message = ''Sniper started successfully'',
              resp_sniper_id = uuid\<rparr>,
             s1\<lparr>active_snipers := (active_snipers s1)(uuid \<mapsto> config)\<rparr>)))"

definition StopSniper :: "sniper_state \<Rightarrow> string \<Rightarrow> SniperResponse \<times> sniper_state" where
  "StopSniper s sid =
     (case active_snipers s sid of
        None \<Rightarrow> (\<lparr>sniper_success = False, sniper_message = ''Sniper not found'',
                   resp_sniper_id = []\<rparr>, s)
      | Some config \<Rightarrow>
          (\<lparr>sniper_success = True, sniper_message = ''Sniper stopped successfully'',
            resp_sniper_id = []\<rparr>,
           s\<lparr>active_snipers := (active_snipers s)(sid := None)\<rparr>))"

text \<open>\<open>AddTargetToken\<close>: \<open>target_tokens.append(token_mint)\<close>.\<close>

definition AddTargetToken ::
  "sniper_state \<Rightarrow> string \<Rightarrow> string \<Rightarrow> SniperResponse \<times> sniper_state" where
  "AddTargetToken s sid mint =
     (case active_snipers s sid of
        None \<Rightarrow> (\<lparr>sniper_success = False, sniper_message = ''Sniper not found'',
                   resp_sniper_id = []\<rparr>, s)
      | Some config \<Rightarrow>
          if \<not> validate_token_mint mint
          then (\<lparr>sniper_success = False, sniper_message = ''Invalid token mint address'',
                 resp_sniper_id = []\<rparr>, s)
          else (\<lparr>sniper_success = True, sniper_message = ''Target token added successfully'',
                 resp_sniper_id = []\<rparr>,
                s\<lparr>active_snipers := (active_snipers s)
                     (sid \<mapsto> config\<lparr>target_tokens := target_tokens config @ [mint]\<rparr>)\<rparr>))"

text \<open>\<open>RemoveTargetToken\<close>: \<open>list.remove\<close> deletes the first occurrence.\<close>

definition RemoveTargetToken ::
  "sniper_state \<Rightarrow> string \<Rightarrow> string \<Rightarrow> SniperResponse \<times> sniper_state" where
  "RemoveTargetToken s sid mint =
     (case active_snipers s sid of
        None \<Rightarrow> (\<lparr>sniper_success = False, sniper_message = ''Sniper not found'',
                   resp_sniper_id = []\<rparr>, s)
      | Some config \<Rightarrow>
          (\<lparr>sniper_success = True, sniper_message = ''Target token removed successfully'',
            resp_sniper_id = []\<rparr>,
           if mint \<in> set (target_tokens config)
           then s\<lparr>active_snipers := (active_snipers s)
                    (sid \<mapsto> config\<lparr>target_tokens := remove1 mint (target_tokens config)\<rparr>)\<rparr>
           else s))"

text \<open>A sequence of requests to the service, run from left to right.\<close>

datatype sniper_request =
    StartSniperRequest SniperConfig string real
  | AddTargetTokenRequest string string
  | RemoveTargetTokenRequest string string
  | StopSniperRequest string

fun serve_sniper :: "sniper_state \<Rightarrow> sniper_request \<Rightarrow> sniper_state" where
  "serve_sniper s (StartSniperRequest request uuid now) = snd (StartSniper s request uuid now)"
| "serve_sniper s (AddTargetTokenRequest sid mint) = snd (AddTargetToken s sid mint)"
| "serve_sniper s (RemoveTargetTokenRequest sid mint) = snd (RemoveTargetToken s sid mint)"
| "serve_sniper s (StopSniperRequest sid) = snd (StopSniper s sid)"

fun serve_sniper_all :: "sniper_state \<Rightarrow> sniper_request list \<Rightarrow> sniper_state" where
  "serve_sniper_all s [] = s"
| "serve_sniper_all s (r # rs) = serve_sniper_all (serve_sniper s r) rs"

text \<open>
  The requests of a sequence that cannot create a duplicate: a start request whose list
  of targets has none, and an add request whose mint is not yet a target of the session
  when it arrives.
\<close>

fun adds_no_duplicate :: "sniper_state \<Rightarrow> sniper_request \<Rightarrow> bool" where
  "adds_no_duplicate s (StartSniperRequest request uuid now) = distinct (req_target_tokens request)"
| "adds_no_duplicate s (AddTargetTokenRequest sid mint) =
     (case active_snipers s sid of None \<Rightarrow> True | Some config \<Rightarrow> mint \<notin> set (target_tokens config))"
| "adds_no_duplicate s (RemoveTargetTokenRequest sid mint) = True"
| "adds_no_duplicate s (StopSniperRequest sid) = True"

fun all_add_no_duplicate :: "sniper_state \<Rightarrow> sniper_request list \<Rightarrow> bool" where
  "all_add_no_duplicate s [] = True"
| "all_add_no_duplicate s (r # rs) =
     (adds_no_duplicate s r \<and> all_add_no_duplicate (serve_sniper s r) rs)"

section \<open>The copy-trade service\<close>

record copy_trade_config =
  copy_trade_id :: string
  source_wallet :: string
  target_wallet :: string
  copy_private_key :: string
  allocation_percentage :: real
  max_position_size :: real
  min_trade_amount :: real
  max_trades_per_hour :: int
  copy_cluster :: int
  copy_rpc_url :: string
  copy_start_time :: real
  copy_is_running :: bool
  copied_trades :: int
  copy_total_profit :: real
  trades_this_hour :: int
  last_trade_time :: real

text \<open>A trade of the source wallet: a dictionary read with \<open>get(key, default)\<close>.\<close>

record trade =
  trade_timestamp :: "real option"
  trade_amount :: "real option"
  trade_token_mint :: "string option"
  trade_order_type :: "int option"
  trade_signature :: "string option"

text \<open>The arguments of one call of the chain client's \<open>execute_swap\<close>, and its answer:
  a dictionary whose keys may be absent, or an exception.\<close>

record swap_call =
  swap_token_mint :: string
  swap_amount :: real
  swap_slippage :: real
  swap_wallet_address :: string
  swap_private_key :: string
  swap_is_sell :: bool

record swap_result =
  swap_success :: bool
  swap_signature :: "string option"
  swap_error :: "string option"

datatype swap_answer = SwapReturns swap_result | SwapRaises string

record copy_trade_record =
  rec_copy_trade_id :: string
  rec_source_wallet :: string
  rec_target_wallet :: string
  rec_token_mint :: string
  rec_amount :: real
  rec_order_type :: int
  rec_signature :: string
  rec_timestamp :: real
  rec_success :: bool

text \<open>
  The registry \<open>active_copy_traders\<close>, the \<open>copy_trade_records\<close> table, and the calls
  made to \<open>execute_swap\<close> so far (a call that raises is listed too).
\<close>

record copy_state =
  active_copy_traders :: "string \<Rightarrow> copy_trade_config option"
  copy_trade_records :: "copy_trade_record list"
  swap_calls :: "swap_call list"

text \<open>
  \<open>_should_copy_trade\<close>. An unknown id raises \<open>KeyError\<close>, which the handler turns
  into \<open>False\<close>. The counter is reset in the registry entry itself, before the amount
  is looked at. \<open>now\<close> is the clock reading.
\<close>

definition should_copy_trade ::
  "copy_state \<Rightarrow> string \<Rightarrow> trade \<Rightarrow> real \<Rightarrow> bool \<times> copy_state" where
  "should_copy_trade s cid tr now =
     (case active_copy_traders s cid of
        None \<Rightarrow> (False, s)
      | Some config \<Rightarrow>
          (let trade_time = dict_get (trade_timestamp tr) 0;
               last = last_trade_time config
           in if trade_time \<le> last then (False, s)
              else
                (case (if now - last < 3600
                       then (if trades_this_hour config \<ge> max_trades_per_hour config
                             then None else Some config)
                       else Some (config\<lparr>trades_this_hour := 0\<rparr>)) of
                   None \<Rightarrow> (False, s)
                 | Some config1 \<Rightarrow>
                     (let s1 = s\<lparr>active_copy_traders := (active_copy_traders s)(cid \<mapsto> config1)\<rparr>
                      in if dict_get (trade_amount tr) 0 < min_trade_amount config1
                         then (False, s1) else (True, s1)))))"

definition record_copy_trade :: "copy_state \<Rightarrow> copy_trade_record \<Rightarrow> copy_state" where
  "record_copy_trade s r = s\<lparr>copy_trade_records := copy_trade_records s @ [r]\<rparr>"

text \<open>The amount \<open>_copy_trade\<close> computes before it calls the chain client.\<close>

definition copy_amount :: "copy_trade_config \<Rightarrow> trade \<Rightarrow> real" where
  "copy_amount config tr =
     (let original_amount = dict_get (trade_amount tr) 0;
          scaled = original_amount * allocation_percentage config
      in if scaled > max_position_size config then max_position_size config else scaled)"

text \<open>
  \<open>_copy_trade\<close>. The configuration is the dictionary of the registry, which the
  function updates in place: the model returns it updated. The last two arguments are the
  clock readings taken for the record and for \<open>last_trade_time\<close>.
\<close>

definition copy_trade ::
  "copy_state \<Rightarrow> string \<Rightarrow> copy_trade_config \<Rightarrow> trade \<Rightarrow> swap_answer \<Rightarrow> real \<Rightarrow> real
     \<Rightarrow> copy_trade_config \<times> copy_state" where
  "copy_trade s cid config tr answer now_record now_update =
     (let amt = copy_amount config tr;
          call = \<lparr>swap_token_mint = dict_get (trade_token_mint tr) [],
                  swap_amount = amt,
                  swap_slippage = 0.05,
                  swap_wallet_address = target_wallet config,
                  swap_private_key = copy_private_key config,
                  swap_is_sell = (dict_get (trade_order_type tr) 0 = 1)\<rparr>;
          s1 = s\<lparr>swap_calls := swap_calls s @ [call]\<rparr>;
          row = \<lparr>rec_copy_trade_id = cid,
                 rec_source_wallet = source_wallet config,
                 rec_target_wallet = target_wallet config,
                 rec_token_mint = dict_get (trade_token_mint tr) [],
                 rec_amount = amt,
                 rec_order_type = dict_get (trade_order_type tr) 0,
                 rec_signature = [],
                 rec_timestamp = now_record,
                 rec_success = False\<rparr>
      in case answer of
           SwapRaises e \<Rightarrow> (config, s1)
         | SwapReturns trade_result \<Rightarrow>
             if swap_success trade_result then
               (case dict_item ''signature'' (swap_signature trade_result) of
                  Inl e \<Rightarrow> (config, s1)
                | Inr sg \<Rightarrow>
                    (config\<lparr>copied_trades := copied_trades config + 1,
                            trades_this_hour := trades_this_hour config + 1,
                            last_trade_time := now_update\<rparr>,
                     record_copy_trade s1 (row\<lparr>rec_signature := sg, rec_success := True\<rparr>)))
             else (config, record_copy_trade s1 row))"

text \<open>
  One turn of the loop of \<open>_check_source_wallet_trades\<close>, with the readings of the
  clock and the chain client's answer for that turn.
\<close>

record turn_environment =
  now_check :: real
  answer_of_swap :: swap_answer
  now_record :: real
  now_update :: real

definition process_trade ::
  "copy_state \<Rightarrow> string \<Rightarrow> trade \<Rightarrow> turn_environment \<Rightarrow> copy_state" where
  "process_trade s cid tr env =
     (case should_copy_trade s cid tr (now_check env) of
        (False, s1) \<Rightarrow> s1
      | (True, s1) \<Rightarrow>
          (case active_copy_traders s1 cid of
             None \<Rightarrow> s1
           | Some config \<Rightarrow>
               (case copy_trade s1 cid config tr (answer_of_swap env) (now_record env) (now_update env) of
                  (config1, s2) \<Rightarrow>
                    s2\<lparr>active_copy_traders := (active_copy_traders s2)(cid \<mapsto> config1)\<rparr>)))"

fun process_trades ::
  "copy_state \<Rightarrow> string \<Rightarrow> (trade \<times> turn_environment) list \<Rightarrow> copy_state" where
  "process_trades s cid [] = s"
| "process_trades s cid ((tr, env) # rest) = process_trades (process_trade s cid tr env) cid rest"

section \<open>Example data\<close>

definition usdc_mint :: string where
  "usdc_mint = ''EPjFWdd5AufqSSqeM2qN1xzybapC8G4wEGGkZwyTDt1v''"

definition wrapped_sol_mint :: string where
  "wrapped_sol_mint = ''So11111111111111111111111111111111111111112''"

definition system_program_id :: string where
  "system_program_id = ''11111111111111111111111111111111''"

definition forty_four_ones :: string where
  "forty_four_ones = ''11111111111111111111111111111111111111111111''"

definition example_wallet :: string where
  "example_wallet = ''9WzDXwBbmkg8ZTbNMqUxvQRAyrZzDsGYdLVL9zYtAWWM''"

definition example_order :: Order where
  "example_order =
     \<lparr>order_id = [], token_mint = usdc_mint, amount = Finite 1, order_type = BUY,
      slippage = Finite 0.05,
      priority_fee = 0, compute_unit_limit = 200000, cluster = 0,
      wallet_address = example_wallet, status = PENDING, timestamp = 0,
      executed_price = 0, executed_amount = 0, signature = []\<rparr>"

definition example_token :: token_info where
  "example_token =
     \<lparr>liquidity = Some 5000, is_verified = Some True, is_honeypot = Some False,
      price = Some 2\<rparr>"

definition example_sniper_request :: SniperConfig where
  "example_sniper_request =
     \<lparr>req_wallet_address = example_wallet, req_private_key = [], req_target_tokens = [],
      req_buy_amount = 1, req_max_slippage = 0.1, req_profit_target = 0.5,
      req_stop_loss = 0.2, req_auto_sell = True, req_compute_unit_limit = 200000,
      req_cluster = 0, req_rpc_url = []\<rparr>"

definition example_copy_config :: copy_trade_config where
  "example_copy_config =
     \<lparr>copy_trade_id = ''c1'', source_wallet = usdc_mint, target_wallet = example_wallet,
      copy_private_key = [], allocation_percentage = 0.5, max_position_size = 3,
      min_trade_amount = 0.01, max_trades_per_hour = 2, copy_cluster = 0, copy_rpc_url = [],
      copy_start_time = 0, copy_is_running = True, copied_trades = 2, copy_total_profit = 0,
      trades_this_hour = 2, last_trade_time = 1000\<rparr>"

definition example_copy_state :: copy_state where
  "example_copy_state =
     \<lparr>active_copy_traders = [''c1'' \<mapsto> example_copy_config], copy_trade_records = [],
      swap_calls = []\<rparr>"

definition example_trade :: trade where
  "example_trade =
     \<lparr>trade_timestamp = Some 2000, trade_amount = Some 10, trade_token_mint = Some usdc_mint,
      trade_order_type = Some 0, trade_signature = Some ''sig''\<rparr>"

definition example_turn :: turn_environment where
  "example_turn =
     \<lparr>now_check = 5000,
      answer_of_swap = SwapReturns \<lparr>swap_success = True, swap_signature = Some ''tx'',
                                     swap_error = None\<rparr>,
      now_record = 5001, now_update = 5002\<rparr>"

definition example_sell_state :: trading_state where
  "example_sell_state =
     \<lparr>orders_table = [example_order\<lparr>order_id := ''o1'', order_type := SELL, status := EXECUTED,
                                       executed_price := 2, executed_amount := 5\<rparr>],
      redis = Map.empty\<rparr>"

definition pending_row :: Order where
  "pending_row = example_order\<lparr>order_id := ''o1'', timestamp := 10\<rparr>"

definition executed_row :: Order where
  "executed_row = example_order\<lparr>order_id := ''o2'', timestamp := 20, status := EXECUTED\<rparr>"

definition example_two_rows_state :: trading_state where
  "example_two_rows_state = \<lparr>orders_table = [pending_row, executed_row], redis = Map.empty\<rparr>"

definition example_sniper_requests :: "sniper_request list" where
  "example_sniper_requests =
     [StartSniperRequest example_sniper_request ''s1'' 0,
      AddTargetTokenRequest ''s1'' usdc_mint,
      RemoveTargetTokenRequest ''s1'' usdc_mint,
      AddTargetTokenRequest ''s1'' usdc_mint]"

definition forty_four_blanks :: string where
  "forty_four_blanks = ''                                            ''"

definition calls_return :: write_outcomes where
  "calls_return = \<lparr>db_execute = Returns, redis_set = Returns\<rparr>"

definition reads_return :: read_outcomes where
  "reads_return = \<lparr>redis_get = Returns, db_fetch_one = Returns, redis_fill = Returns\<rparr>"

definition cache_write_fails :: write_outcomes where
  "cache_write_fails = \<lparr>db_execute = Returns, redis_set = Raises ''connection lost''\<rparr>"

definition settled_answer :: chain_answer where
  "settled_answer =
     ChainReturns \<lparr>tx_success = True, tx_signature = Some ''5sig'', tx_executed_price = Some 2,
                   tx_executed_amount = Some 1, tx_compute_units_used = Some 5000,
                   tx_total_cost = Some 2, tx_error = None\<rparr>"

definition placed_request :: Order where
  "placed_request = example_order\<lparr>order_id := ''o1'', timestamp := 100, status := PENDING\<rparr>"

definition bad_address_order :: Order where
  "bad_address_order =
     example_order\<lparr>token_mint := forty_four_ones, wallet_address := forty_four_blanks\<rparr>"

definition nan_order :: Order where
  "nan_order = example_order\<lparr>amount := NaN, slippage := NaN\<rparr>"

text \<open>An order is placed and is waiting for the chain client; it is cancelled meanwhile;
  then the chain client answers.\<close>

definition overlap_stored :: trading_state where
  "overlap_stored =
     snd (place_order_until_execution initial_trading_state example_order ''o1'' 100
            (RiskResult True []) calls_return)"

definition overlap_cancelled :: trading_state where
  "overlap_cancelled = snd (CancelOrder overlap_stored ''o1'' reads_return calls_return)"

definition overlap_settled :: "chain_answer \<Rightarrow> trading_state" where
  "overlap_settled answer =
     snd (place_order_after_execution overlap_cancelled placed_request answer calls_return)"

text \<open>An order is placed and executed, and the cache write of \<open>_update_order\<close> fails.\<close>

definition stale_cache_state :: trading_state where
  "stale_cache_state =
     snd (PlaceOrder initial_trading_state example_order ''o1'' 100 (RiskResult True [])
            settled_answer calls_return cache_write_fails)"

section \<open>The sniper opportunity predicate\<close>

text \<open>
  Claim C3. The opportunity predicate of the sniper returns false for a token whose
  liquidity is below the threshold of 1000, false for a token that is not marked
  verified, false for a token flagged as a honeypot, and true for every token that
  passes the three checks. An absent key counts as liquidity 0, not verified, not a
  honeypot.
\<close>

theorem sniper_opportunity_predicate:
  "(dict_get (liquidity info) 0 < 1000 \<longrightarrow> \<not> is_good_opportunity info)
   \<and> (\<not> dict_get (is_verified info) False \<longrightarrow> \<not> is_good_opportunity info)
   \<and> (dict_get (is_honeypot info) False \<longrightarrow> \<not> is_good_opportunity info)
   \<and> (dict_get (liquidity info) 0 \<ge> 1000 \<and> dict_get (is_verified info) False
        \<and> \<not> dict_get (is_honeypot info) False \<longrightarrow> is_good_opportunity info)"
  by (simp add: is_good_opportunity_def)

theorem sniper_opportunity_predicate_witness:
  "\<not> is_good_opportunity (example_token\<lparr>liquidity := Some 999\<rparr>)
   \<and> \<not> is_good_opportunity (example_token\<lparr>is_verified := None\<rparr>)
   \<and> \<not> is_good_opportunity (example_token\<lparr>is_honeypot := Some True\<rparr>)
   \<and> is_good_opportunity (example_token\<lparr>liquidity := Some 1000\<rparr>)"
  using sniper_opportunity_predicate [of "example_token\<lparr>liquidity := Some 999\<rparr>"]
        sniper_opportunity_predicate [of "example_token\<lparr>is_verified := None\<rparr>"]
        sniper_opportunity_predicate [of "example_token\<lparr>is_honeypot := Some True\<rparr>"]
        sniper_opportunity_predicate [of "example_token\<lparr>liquidity := Some 1000\<rparr>"]
  by (simp add: example_token_def dict_get_def)

section \<open>Admission of copy trades\<close>

text \<open>
  Claim C4. For a session with last-trade time \<open>T\<close> whose rolling-hour counter equals
  its cap, the admission check rejects a trade when the clock reads less than
  \<open>T + 3600\<close> and leaves the session as it is; when the clock reads \<open>T + 3600\<close> or
  more it admits a trade that is newer than \<open>T\<close> and not below the minimum amount, and
  the counter of the session is reset to zero.
\<close>

theorem hourly_cap_window:
  assumes "active_copy_traders s cid = Some config"
      and "trades_this_hour config = max_trades_per_hour config"
  shows "(now < last_trade_time config + 3600 \<longrightarrow> should_copy_trade s cid tr now = (False, s))
       \<and> (now \<ge> last_trade_time config + 3600
            \<and> dict_get (trade_timestamp tr) 0 > last_trade_time config
            \<and> dict_get (trade_amount tr) 0 \<ge> min_trade_amount config
          \<longrightarrow> should_copy_trade s cid tr now =
                (True, s\<lparr>active_copy_traders :=
                           (active_copy_traders s)(cid \<mapsto> config\<lparr>trades_this_hour := 0\<rparr>)\<rparr>))"
proof (intro conjI impI)
  assume early: "now < last_trade_time config + 3600"
  then have "now - last_trade_time config < 3600" by simp
  with assms show "should_copy_trade s cid tr now = (False, s)"
    by (simp add: should_copy_trade_def Let_def)
next
  assume late: "now \<ge> last_trade_time config + 3600
            \<and> dict_get (trade_timestamp tr) 0 > last_trade_time config
            \<and> dict_get (trade_amount tr) 0 \<ge> min_trade_amount config"
  then have "\<not> now - last_trade_time config < 3600" by simp
  with assms late show "should_copy_trade s cid tr now =
                (True, s\<lparr>active_copy_traders :=
                           (active_copy_traders s)(cid \<mapsto> config\<lparr>trades_this_hour := 0\<rparr>)\<rparr>)"
    by (simp add: should_copy_trade_def Let_def)
qed

theorem hourly_cap_window_witness:
  "should_copy_trade example_copy_state ''c1'' example_trade 4599 = (False, example_copy_state)
   \<and> should_copy_trade example_copy_state ''c1'' example_trade 4600 =
       (True, example_copy_state\<lparr>active_copy_traders :=
                 (active_copy_traders example_copy_state)
                   (''c1'' \<mapsto> example_copy_config\<lparr>trades_this_hour := 0\<rparr>)\<rparr>)"
  using hourly_cap_window [of example_copy_state "''c1''" example_copy_config 4599 example_trade]
        hourly_cap_window [of example_copy_state "''c1''" example_copy_config 4600 example_trade]
  by (simp add: example_copy_state_def example_copy_config_def example_trade_def dict_get_def)

text \<open>
  Claim C5. A trade of the source wallet whose timestamp is not later than the
  last-trade time of the session is never replicated: the admission check returns false
  and changes nothing, and the turn of the loop for that trade makes no call to the chain
  client and writes no record.
\<close>

theorem replayed_trade_not_copied:
  assumes "active_copy_traders s cid = Some config"
      and "dict_get (trade_timestamp tr) 0 \<le> last_trade_time config"
  shows "should_copy_trade s cid tr now = (False, s)
       \<and> process_trade s cid tr env = s
       \<and> swap_calls (process_trade s cid tr env) = swap_calls s
       \<and> copy_trade_records (process_trade s cid tr env) = copy_trade_records s"
proof -
  from assms have refused: "should_copy_trade s cid tr now' = (False, s)" for now'
    by (simp add: should_copy_trade_def Let_def)
  then have "process_trade s cid tr env = s"
    by (simp add: process_trade_def)
  with refused show ?thesis by simp
qed

theorem replayed_trade_not_copied_witness:
  "should_copy_trade example_copy_state ''c1'' (example_trade\<lparr>trade_timestamp := Some 1000\<rparr>) 9000
     = (False, example_copy_state)
   \<and> process_trade example_copy_state ''c1'' (example_trade\<lparr>trade_timestamp := Some 1000\<rparr>)
        example_turn = example_copy_state"
  using replayed_trade_not_copied [of example_copy_state "''c1''" example_copy_config
          "example_trade\<lparr>trade_timestamp := Some 1000\<rparr>" 9000 example_turn]
  by (simp add: example_copy_state_def example_copy_config_def example_trade_def dict_get_def)








section \<open>Profit and loss\<close>

lemma calculate_profit_loss_try_never_raises:
  "\<exists>info. calculate_profit_loss_try s wallet = Inr info"
  by (simp add: calculate_profit_loss_try_def py_truediv_def split: prod.splits)

text \<open>
  Claim C9. For a wallet whose executed orders give a total invested amount of zero,
  the profit and loss computation reaches its \<open>return\<close> without raising (no division is
  attempted) and the profit percentage it returns is 0.
\<close>

theorem zero_invested_zero_percent:
  assumes "total_invested s wallet = 0"
  shows "(\<exists>info. calculate_profit_loss_try s wallet = Inr info
            \<and> total_profit_percentage info = 0)
       \<and> total_profit_percentage (calculate_profit_loss s wallet) = 0"
  using assms
  by (auto simp add: total_invested_def calculate_profit_loss_def calculate_profit_loss_try_def
           split: prod.splits)

lemma example_sell_orders:
  "get_orders example_sell_state example_wallet 1 0 0 0 0 = orders_table example_sell_state"
  by (simp add: get_orders_def fetch_all_orders_def row_matches_def example_sell_state_def
        example_order_def)

theorem zero_invested_zero_percent_witness:
  "total_invested example_sell_state example_wallet = 0
   \<and> calculate_profit_loss example_sell_state example_wallet
       = \<lparr>total_profit = 10, total_profit_percentage = 0\<rparr>"
proof -
  have invested: "total_invested example_sell_state example_wallet = 0"
    by (simp add: total_invested_def example_sell_orders)
       (simp add: example_sell_state_def example_order_def)
  have profit: "total_profit (calculate_profit_loss example_sell_state example_wallet) = 10"
    by (simp add: calculate_profit_loss_def calculate_profit_loss_try_def example_sell_orders)
       (simp add: example_sell_state_def example_order_def)
  from zero_invested_zero_percent [OF invested] profit
  show ?thesis using invested
    by (cases "calculate_profit_loss example_sell_state example_wallet") simp
qed

section \<open>The status filter of the order query\<close>

lemma get_orders_unpaged:
  "set (get_orders s w st 0 0 0 0) =
     {row \<in> set (orders_table s). wallet_address row = w
        \<and> (st = 0 \<or> status_value (status row) = st)}"
  by (auto simp add: get_orders_def fetch_all_orders_def row_matches_def)

lemma get_orders_subset:
  "set (get_orders s w st t1 t2 lmt ofs) \<subseteq>
     {row \<in> set (orders_table s). wallet_address row = w
        \<and> (st = 0 \<or> status_value (status row) = st)}"
proof -
  have "set (take n xs) \<subseteq> set xs" "set (drop n xs) \<subseteq> set xs" for n and xs :: "Order list"
    by (auto dest: in_set_takeD in_set_dropD)
  then have page: "set (take n (drop m xs)) \<subseteq> set xs" for n m and xs :: "Order list"
    by (meson subset_trans)
  show ?thesis
    unfolding get_orders_def fetch_all_orders_def Let_def
    by (auto simp add: row_matches_def split: option.splits
             dest!: in_set_takeD in_set_dropD)
qed

text \<open>
  Claim C10. A \<open>GetOrders\<close> query whose status is 0, the value of \<open>PENDING\<close>, carries no
  status clause: without time bounds and paging it returns every order of the wallet,
  whatever its status, and with them it is the query whose status clause is absent. A
  query with any other status value returns exactly the orders of that status, so no
  status value selects the pending orders alone: a non-zero one returns no pending order.
\<close>

theorem pending_filter_is_no_filter:
  "set (orders (GetOrders s w 0 0 0 0 0)) = {row \<in> set (orders_table s). wallet_address row = w}
   \<and> get_orders s w 0 t1 t2 lmt ofs =
       fetch_all_orders
         \<lparr>q_wallet_address = w, q_status = None,
          q_start_time = (if t1 > 0 then Some t1 else None),
          q_end_time = (if t2 > 0 then Some t2 else None),
          q_limit = (if lmt > 0 then Some lmt else None),
          q_offset = (if ofs > 0 then Some ofs else None)\<rparr> (orders_table s)
   \<and> (st \<noteq> 0 \<longrightarrow>
        set (orders (GetOrders s w st 0 0 0 0)) =
          {row \<in> set (orders_table s). wallet_address row = w \<and> status_value (status row) = st})
   \<and> (st \<noteq> 0 \<longrightarrow>
        (\<forall>row \<in> set (orders (GetOrders s w st t1 t2 lmt ofs)).
           status_value (status row) = st \<and> status row \<noteq> PENDING))"
proof (intro conjI impI)
  show "set (orders (GetOrders s w 0 0 0 0 0)) = {row \<in> set (orders_table s). wallet_address row = w}"
    using get_orders_unpaged [of s w 0] by (simp add: GetOrders_def Let_def)
next
  show "get_orders s w 0 t1 t2 lmt ofs =
       fetch_all_orders
         \<lparr>q_wallet_address = w, q_status = None,
          q_start_time = (if t1 > 0 then Some t1 else None),
          q_end_time = (if t2 > 0 then Some t2 else None),
          q_limit = (if lmt > 0 then Some lmt else None),
          q_offset = (if ofs > 0 then Some ofs else None)\<rparr> (orders_table s)"
    by (simp add: get_orders_def)
next
  assume "st \<noteq> 0"
  then show "set (orders (GetOrders s w st 0 0 0 0)) =
          {row \<in> set (orders_table s). wallet_address row = w \<and> status_value (status row) = st}"
    using get_orders_unpaged [of s w st] by (simp add: GetOrders_def Let_def)
next
  assume nz: "st \<noteq> 0"
  show "\<forall>row \<in> set (orders (GetOrders s w st t1 t2 lmt ofs)).
           status_value (status row) = st \<and> status row \<noteq> PENDING"
  proof
    fix row assume "row \<in> set (orders (GetOrders s w st t1 t2 lmt ofs))"
    then have "row \<in> set (get_orders s w st t1 t2 lmt ofs)"
      by (simp add: GetOrders_def Let_def)
    with get_orders_subset [of s w st t1 t2 lmt ofs] nz
    have v: "status_value (status row) = st" by auto
    with nz have "status row \<noteq> PENDING" by auto
    with v show "status_value (status row) = st \<and> status row \<noteq> PENDING" by simp
  qed
qed

lemma example_two_rows_facts:
  "orders_table example_two_rows_state = [pending_row, executed_row]"
  "wallet_address pending_row = example_wallet"
  "wallet_address executed_row = example_wallet"
  "status pending_row = PENDING"
  "status executed_row = EXECUTED"
  by (simp_all add: example_two_rows_state_def pending_row_def executed_row_def example_order_def)

theorem pending_filter_is_no_filter_witness:
  "pending_row \<in> set (orders (GetOrders example_two_rows_state example_wallet 0 0 0 0 0))
   \<and> executed_row \<in> set (orders (GetOrders example_two_rows_state example_wallet 0 0 0 0 0))
   \<and> pending_row \<notin> set (orders (GetOrders example_two_rows_state example_wallet 1 0 0 0 0))
   \<and> executed_row \<in> set (orders (GetOrders example_two_rows_state example_wallet 1 0 0 0 0))"
proof -
  have nz: "(1::int) \<noteq> 0" by simp
  from pending_filter_is_no_filter [of example_two_rows_state example_wallet 0 0 0 0 1]
  have all: "set (orders (GetOrders example_two_rows_state example_wallet 0 0 0 0 0)) =
          {row \<in> set (orders_table example_two_rows_state). wallet_address row = example_wallet}"
    and one: "set (orders (GetOrders example_two_rows_state example_wallet 1 0 0 0 0)) =
          {row \<in> set (orders_table example_two_rows_state).
             wallet_address row = example_wallet \<and> status_value (status row) = 1}"
    using nz by blast+
  show ?thesis
    unfolding all one
    by (simp add: example_two_rows_facts)
qed

section \<open>The address check\<close>

lemma index_of_None: "index_of xs x = None \<longleftrightarrow> x \<notin> set xs"
  by (induction xs) auto

lemma b58decode_loop_returns:
  "(\<exists>n. b58decode_loop d cs = Inr n) \<longleftrightarrow> list_all (\<lambda>c. c \<in> set BITCOIN_ALPHABET) cs"
proof (induction cs arbitrary: d)
  case Nil
  show ?case by simp
next
  case (Cons c cs)
  show ?case
  proof (cases "index_of BITCOIN_ALPHABET c")
    case None
    then have "c \<notin> set BITCOIN_ALPHABET" by (simp add: index_of_None)
    with None show ?thesis by simp
  next
    case (Some i)
    then have "c \<in> set BITCOIN_ALPHABET"
      using index_of_None [of BITCOIN_ALPHABET c] by simp
    with Some Cons.IH [of "d * 58 + i"] show ?thesis by simp
  qed
qed

lemma alphabet_is_ascii: "c \<in> set BITCOIN_ALPHABET \<Longrightarrow> is_ascii c"
proof -
  have "list_all is_ascii BITCOIN_ALPHABET"
    by (simp add: BITCOIN_ALPHABET_def is_ascii_def)
  then show "c \<in> set BITCOIN_ALPHABET \<Longrightarrow> is_ascii c"
    by (simp add: list_all_iff)
qed

lemma one_in_alphabet: "CHR ''1'' \<in> set BITCOIN_ALPHABET"
  by (simp add: BITCOIN_ALPHABET_def)

lemma leading_ones_in_alphabet:
  "list_all (\<lambda>c. c \<in> set BITCOIN_ALPHABET) (dropWhile (\<lambda>c. c = CHR ''1'') v)
     \<longleftrightarrow> list_all (\<lambda>c. c \<in> set BITCOIN_ALPHABET) v"
  by (induction v) (auto simp add: one_in_alphabet)

lemma b58decode_returns:
  "(\<exists>bs. b58decode v = Inr bs) \<longleftrightarrow> list_all (\<lambda>c. c \<in> set BITCOIN_ALPHABET) (rstrip v)"
proof (cases "list_all is_ascii (rstrip v)")
  case False
  then obtain c where "c \<in> set (rstrip v)" "\<not> is_ascii c"
    by (auto simp add: list_all_iff)
  then have "\<not> list_all (\<lambda>c. c \<in> set BITCOIN_ALPHABET) (rstrip v)"
    using alphabet_is_ascii by (auto simp add: list_all_iff)
  with False show ?thesis
    by (simp add: b58decode_def scrub_input_def)
next
  case True
  let ?rest = "dropWhile (\<lambda>c. c = CHR ''1'') (rstrip v)"
  have "(\<exists>bs. b58decode v = Inr bs) \<longleftrightarrow> (\<exists>n. b58decode_loop 0 ?rest = Inr n)"
    using True
    by (cases "b58decode_loop 0 ?rest")
       (simp_all add: b58decode_def scrub_input_def b58decode_int_def Let_def)
  then show ?thesis
    by (simp add: b58decode_loop_returns leading_ones_in_alphabet)
qed

lemma validate_token_mint_iff:
  "validate_token_mint v \<longleftrightarrow>
     length v = 44 \<and> list_all (\<lambda>c. c \<in> set BITCOIN_ALPHABET) (rstrip v)"
  using b58decode_returns [of v]
  by (cases "b58decode v") (simp_all add: validate_token_mint_def)

lemma validate_wallet_address_iff:
  "validate_wallet_address v \<longleftrightarrow>
     length v = 44 \<and> list_all (\<lambda>c. c \<in> set BITCOIN_ALPHABET) (rstrip v)"
  using b58decode_returns [of v]
  by (cases "b58decode v") (simp_all add: validate_wallet_address_def)

lemmas decode_steps =
  b58decode_def rstrip_def py_isspace_def py_whitespace_def scrub_input_def is_ascii_def
  b58decode_int_def BITCOIN_ALPHABET_def to_bytes_big_def

lemma ones_decoded: "b58decode (replicate n (CHR ''1'')) = Inr (replicate n 0)"
proof -
  have "int_to_bytes_le 0 = []" by (simp add: int_to_bytes_le.simps)
  moreover have "rstrip (replicate n (CHR ''1'')) = replicate n (CHR ''1'')"
    by (simp add: rstrip_def py_isspace_def py_whitespace_def)
  moreover have "list_all is_ascii (replicate n (CHR ''1''))"
    by (simp add: list_all_iff is_ascii_def)
  ultimately show ?thesis
    by (simp add: b58decode_def scrub_input_def b58decode_int_def to_bytes_big_def)
qed

lemma forty_four_ones_decoded: "b58decode forty_four_ones = Inr (replicate 44 0)"
proof -
  have ones: "forty_four_ones = replicate 44 (CHR ''1'')"
    by (simp add: forty_four_ones_def eval_nat_numeral)
  show ?thesis unfolding ones by (rule ones_decoded)
qed

lemma system_program_id_decoded: "b58decode system_program_id = Inr (replicate 32 0)"
proof -
  have ones: "system_program_id = replicate 32 (CHR ''1'')"
    by (simp add: system_program_id_def eval_nat_numeral)
  show ?thesis unfolding ones by (rule ones_decoded)
qed

lemma wrapped_sol_mint_is_key: "encodes_32_byte_key wrapped_sol_mint"
  by (simp add: encodes_32_byte_key_def wrapped_sol_mint_def decode_steps int_to_bytes_le.simps)

lemma example_addresses_pass:
  "validate_token_mint usdc_mint" "validate_wallet_address example_wallet"
  by (simp_all add: validate_token_mint_iff validate_wallet_address_iff usdc_mint_def
        example_wallet_def rstrip_def py_isspace_def py_whitespace_def BITCOIN_ALPHABET_def)

text \<open>
  Claim C7, as stated, fails in both directions. A text of 44 characters \<open>1\<close> passes
  the check although it decodes to 44 zero bytes; the wrapped SOL mint (43 characters)
  and the system program id (32 characters) encode keys of 32 bytes and are refused.
\<close>

theorem address_check_counterexample:
  "validate_token_mint forty_four_ones \<and> \<not> encodes_32_byte_key forty_four_ones
   \<and> encodes_32_byte_key wrapped_sol_mint \<and> \<not> validate_token_mint wrapped_sol_mint
   \<and> encodes_32_byte_key system_program_id \<and> \<not> validate_wallet_address system_program_id"
proof -
  have "length forty_four_ones = 44" "length wrapped_sol_mint = 43" "length system_program_id = 32"
    by (simp_all add: forty_four_ones_def wrapped_sol_mint_def system_program_id_def)
  then show ?thesis
    using forty_four_ones_decoded system_program_id_decoded wrapped_sol_mint_is_key
    by (simp add: validate_token_mint_def validate_wallet_address_def encodes_32_byte_key_def)
qed

text \<open>
  Claim C7, amended. The token-mint and wallet-address checks accept a text exactly when
  it has 44 characters and base-58 decoding succeeds, that is, when every character left
  after trailing whitespace is dropped belongs to the base-58 alphabet. The length
  comparison is a condition of acceptance, and the length of the decoded bytes is not
  looked at.
\<close>

theorem address_check_is_length_and_alphabet:
  "validate_token_mint v =
     (length v = 44 \<and> list_all (\<lambda>c. c \<in> set BITCOIN_ALPHABET) (rstrip v))
   \<and> validate_wallet_address v =
     (length v = 44 \<and> list_all (\<lambda>c. c \<in> set BITCOIN_ALPHABET) (rstrip v))"
  using validate_token_mint_iff [of v] validate_wallet_address_iff [of v] by simp

theorem address_check_is_length_and_alphabet_witness:
  "validate_token_mint usdc_mint \<and> \<not> validate_wallet_address wrapped_sol_mint"
  using address_check_is_length_and_alphabet [of usdc_mint]
        address_check_is_length_and_alphabet [of wrapped_sol_mint]
  by (simp add: usdc_mint_def wrapped_sol_mint_def rstrip_def py_isspace_def py_whitespace_def
        BITCOIN_ALPHABET_def)

section \<open>Target tokens of a sniper session\<close>

lemma serve_sniper_keeps_distinct:
  assumes inv: "\<forall>sid config. active_snipers s sid = Some config \<longrightarrow> distinct (target_tokens config)"
      and ok: "adds_no_duplicate s r"
  shows "\<forall>sid config. active_snipers (serve_sniper s r) sid = Some config
            \<longrightarrow> distinct (target_tokens config)"
proof (cases r)
  case (StartSniperRequest request uuid now)
  with inv ok show ?thesis
    by (auto simp add: StartSniper_def store_sniper_config_def Let_def split: if_splits)
next
  case (AddTargetTokenRequest tid mint)
  with inv ok show ?thesis
    by (auto simp add: AddTargetToken_def split: option.splits if_splits)
next
  case (RemoveTargetTokenRequest tid mint)
  with inv show ?thesis
    by (auto simp add: RemoveTargetToken_def split: option.splits if_splits)
next
  case (StopSniperRequest tid)
  with inv show ?thesis
    by (auto simp add: StopSniper_def split: option.splits if_splits)
qed

lemma serve_sniper_all_keeps_distinct:
  assumes "\<forall>sid config. active_snipers s sid = Some config \<longrightarrow> distinct (target_tokens config)"
      and "all_add_no_duplicate s rs"
  shows "\<forall>sid config. active_snipers (serve_sniper_all s rs) sid = Some config
            \<longrightarrow> distinct (target_tokens config)"
  using assms
proof (induction rs arbitrary: s)
  case Nil
  then show ?case by simp
next
  case (Cons r rs)
  from Cons.prems have step: "\<forall>sid config. active_snipers (serve_sniper s r) sid = Some config
            \<longrightarrow> distinct (target_tokens config)"
    using serve_sniper_keeps_distinct [of s r] by simp
  from Cons.prems have "all_add_no_duplicate (serve_sniper s r) rs" by simp
  with Cons.IH [OF step] show ?case by simp
qed

text \<open>
  Claim C8, as stated, fails: \<open>AddTargetToken\<close> appends without looking for the mint,
  so adding the same mint twice to a session leaves it twice in the list.
\<close>

theorem target_tokens_duplicate_counterexample:
  "map_option target_tokens
     (active_snipers
        (serve_sniper_all initial_sniper_state
           [StartSniperRequest example_sniper_request ''s1'' 0,
            AddTargetTokenRequest ''s1'' usdc_mint,
            AddTargetTokenRequest ''s1'' usdc_mint]) ''s1'')
     = Some [usdc_mint, usdc_mint]
   \<and> \<not> distinct [usdc_mint, usdc_mint]"
  by (simp add: StartSniper_def AddTargetToken_def store_sniper_config_def Let_def
        initial_sniper_state_def example_sniper_request_def example_addresses_pass)

text \<open>
  Claim C8, amended. Starting from the empty registry, after any sequence of
  \<open>StartSniper\<close>, \<open>AddTargetToken\<close>, \<open>RemoveTargetToken\<close> and \<open>StopSniper\<close> requests in
  which every start request carries a list without duplicates and every add request
  names a mint that is not yet a target of its session, no session holds a mint twice.
\<close>

theorem target_tokens_distinct_without_repeated_add:
  assumes "all_add_no_duplicate initial_sniper_state rs"
      and "active_snipers (serve_sniper_all initial_sniper_state rs) sid = Some config"
  shows "distinct (target_tokens config)"
proof -
  have "\<forall>sid config. active_snipers initial_sniper_state sid = Some config
          \<longrightarrow> distinct (target_tokens config)"
    by (simp add: initial_sniper_state_def)
  from serve_sniper_all_keeps_distinct [OF this assms(1)] assms(2)
  show ?thesis by blast
qed

lemma example_sniper_requests_served:
  "map_option target_tokens
     (active_snipers (serve_sniper_all initial_sniper_state example_sniper_requests) ''s1'')
     = Some [usdc_mint]"
  "all_add_no_duplicate initial_sniper_state example_sniper_requests"
  by (simp_all add: example_sniper_requests_def StartSniper_def AddTargetToken_def
        RemoveTargetToken_def store_sniper_config_def Let_def
        initial_sniper_state_def example_sniper_request_def example_addresses_pass)

theorem target_tokens_distinct_without_repeated_add_witness:
  "all_add_no_duplicate initial_sniper_state example_sniper_requests
   \<and> (\<exists>config. active_snipers (serve_sniper_all initial_sniper_state example_sniper_requests) ''s1''
                  = Some config
        \<and> target_tokens config = [usdc_mint] \<and> distinct (target_tokens config))"
proof -
  from example_sniper_requests_served(1)
  obtain config where session:
      "active_snipers (serve_sniper_all initial_sniper_state example_sniper_requests) ''s1'' = Some config"
    and targets: "target_tokens config = [usdc_mint]"
    by (auto simp add: map_option_case split: option.splits)
  from target_tokens_distinct_without_repeated_add [OF example_sniper_requests_served(2) session]
  show ?thesis using session targets example_sniper_requests_served(2) by simp
qed

section \<open>Rejection before persistence\<close>

lemma forty_four_blanks_decoded: "b58decode forty_four_blanks = Inr []"
proof -
  have blanks: "forty_four_blanks = replicate 44 (CHR '' '')"
    by (simp add: forty_four_blanks_def eval_nat_numeral)
  have "rstrip (replicate 44 (CHR '' '')) = []"
    by (simp add: rstrip_def py_isspace_def py_whitespace_def)
  moreover have "int_to_bytes_le 0 = []" by (simp add: int_to_bytes_le.simps)
  ultimately show ?thesis
    unfolding blanks
    by (simp add: b58decode_def scrub_input_def b58decode_int_def to_bytes_big_def)
qed

lemma not_keys_pass:
  "validate_token_mint forty_four_ones" "\<not> encodes_32_byte_key forty_four_ones"
  "validate_wallet_address forty_four_blanks" "\<not> encodes_32_byte_key forty_four_blanks"
proof -
  have "length forty_four_ones = 44" "length forty_four_blanks = 44"
    by (simp_all add: forty_four_ones_def forty_four_blanks_def)
  then show "validate_token_mint forty_four_ones" "\<not> encodes_32_byte_key forty_four_ones"
    "validate_wallet_address forty_four_blanks" "\<not> encodes_32_byte_key forty_four_blanks"
    using forty_four_ones_decoded forty_four_blanks_decoded
    by (simp_all add: validate_token_mint_def validate_wallet_address_def encodes_32_byte_key_def)
qed

lemma placed_then_failed:
  assumes "valid (validate_order (request\<lparr>order_id := uuid, timestamp := now, status := PENDING\<rparr>))"
  shows "orders_table (snd (PlaceOrder initial_trading_state request uuid now (RiskResult True [])
            (ChainRaises e) calls_return calls_return))
         = [request\<lparr>order_id := uuid, timestamp := now, status := FAILED\<rparr>]"
    and "redis (snd (PlaceOrder initial_trading_state request uuid now (RiskResult True [])
            (ChainRaises e) calls_return calls_return)) (order_key uuid)
         = Some (request\<lparr>order_id := uuid, timestamp := now, status := FAILED\<rparr>)"
  using assms
  by (simp_all add: PlaceOrder_def place_order_until_execution_def place_order_after_execution_def
        store_order_def update_order_def update_row_def execute_order_def calls_return_def
        initial_trading_state_def Let_def)

text \<open>
  Claim C1, as stated, fails for an address that is not the encoding of a 32-byte key:
  the address check lets 44 characters \<open>1\<close> and 44 blanks through, so an order with such a
  token mint and such a wallet address is validated, a row is inserted and a cache entry
  is written.
\<close>

theorem rejected_order_counterexample:
  "\<not> encodes_32_byte_key (token_mint bad_address_order)
   \<and> \<not> encodes_32_byte_key (wallet_address bad_address_order)
   \<and> map status (orders_table (snd (PlaceOrder initial_trading_state bad_address_order ''o1'' 100
            (RiskResult True []) (ChainRaises ''rpc down'') calls_return calls_return))) = [FAILED]
   \<and> map_option status (redis (snd (PlaceOrder initial_trading_state bad_address_order ''o1'' 100
            (RiskResult True []) (ChainRaises ''rpc down'') calls_return calls_return))
          (order_key ''o1'')) = Some FAILED"
proof -
  have fields: "token_mint bad_address_order = forty_four_ones"
    "wallet_address bad_address_order = forty_four_blanks"
    "amount bad_address_order = Finite 1" "slippage bad_address_order = Finite 0.05"
    by (simp_all add: bad_address_order_def example_order_def)
  then have "valid (validate_order (bad_address_order\<lparr>order_id := ''o1'', timestamp := 100,
                                                      status := PENDING\<rparr>))"
    by (simp add: validate_order_def not_keys_pass)
  from placed_then_failed [OF this, of "''rpc down''"] fields show ?thesis
    by (simp add: not_keys_pass)
qed

text \<open>
  Claim C1, amended. An order request that the validation refuses (an amount that
  compares less than or equal to 0, a slippage that compares less than or equal to 0 or
  greater than 0.5, a token mint or a wallet address that fails the address check of 44
  base-58 characters) or that the risk evaluator denies gets a failure response with a
  non-empty message, and the state is returned as it was, whatever the database and the
  cache would have answered: no row is added to the table and no entry is written to the
  cache.
\<close>

theorem rejected_order_not_persisted:
  assumes "float_le (amount request) 0 \<or> float_le (slippage request) 0
           \<or> float_gt (slippage request) 0.5
           \<or> \<not> validate_token_mint (token_mint request)
           \<or> \<not> validate_wallet_address (wallet_address request)
           \<or> (\<exists>why. risk = RiskResult False why)"
  shows "\<exists>resp. PlaceOrder s request uuid now risk answer io_store io_update = (resp, s)
           \<and> \<not> success resp \<and> message resp \<noteq> []"
proof (cases "valid (validate_order (request\<lparr>order_id := uuid, timestamp := now, status := PENDING\<rparr>))")
  case False
  then show ?thesis
    by (simp add: PlaceOrder_def place_order_until_execution_def Let_def response_def
          validate_order_def split: if_splits)
next
  case True
  then have "\<not> (float_le (amount request) 0 \<or> float_le (slippage request) 0
           \<or> float_gt (slippage request) 0.5
           \<or> \<not> validate_token_mint (token_mint request)
           \<or> \<not> validate_wallet_address (wallet_address request))"
    by (simp add: validate_order_def split: if_splits)
  with assms obtain why where "risk = RiskResult False why" by blast
  with True show ?thesis
    by (simp add: PlaceOrder_def place_order_until_execution_def Let_def response_def)
qed

theorem rejected_order_not_persisted_witness:
  "\<exists>resp. PlaceOrder initial_trading_state (example_order\<lparr>slippage := Finite 0.6\<rparr>) ''o1'' 1700000000
             (RiskResult True []) (ChainRaises []) calls_return calls_return
             = (resp, initial_trading_state)
           \<and> \<not> success resp \<and> message resp \<noteq> []"
  using rejected_order_not_persisted [of "example_order\<lparr>slippage := Finite 0.6\<rparr>" "RiskResult True []"
          initial_trading_state "''o1''" 1700000000 "ChainRaises []" calls_return calls_return]
  by (simp add: example_order_def)

text \<open>
  An amount or a slippage that is NaN satisfies none of the comparisons of the
  validation: such an order is validated and stored.
\<close>

lemma nan_order_is_stored:
  "map status (orders_table (snd (PlaceOrder initial_trading_state nan_order ''o1'' 100
            (RiskResult True []) (ChainRaises ''rpc down'') calls_return calls_return))) = [FAILED]"
proof -
  have "valid (validate_order (nan_order\<lparr>order_id := ''o1'', timestamp := 100, status := PENDING\<rparr>))"
    by (simp add: validate_order_def nan_order_def example_order_def example_addresses_pass)
  from placed_then_failed(1) [OF this, of "''rpc down''"] show ?thesis by simp
qed

section \<open>The lifecycle of an order\<close>

lemma placed_request_valid: "valid (validate_order placed_request)"
  by (simp add: validate_order_def placed_request_def example_order_def example_addresses_pass)

lemma placed_request_fields:
  "order_id placed_request = ''o1''" "status placed_request = PENDING"
  by (simp_all add: placed_request_def)

lemma overlap_stored_facts:
  "fst (place_order_until_execution initial_trading_state example_order ''o1'' 100
          (RiskResult True []) calls_return) = AwaitsExecution placed_request"
  "overlap_stored = \<lparr>orders_table = [placed_request],
                      redis = [order_key ''o1'' \<mapsto> placed_request]\<rparr>"
  using placed_request_valid
  by (simp_all add: overlap_stored_def place_order_until_execution_def store_order_def
        calls_return_def initial_trading_state_def Let_def placed_request_def)

lemma overlap_cancelled_facts:
  "fst (CancelOrder overlap_stored ''o1'' reads_return calls_return)
     = response True ''Order cancelled successfully''"
  "overlap_cancelled = \<lparr>orders_table = [placed_request\<lparr>status := CANCELLED\<rparr>],
                         redis = [order_key ''o1'' \<mapsto> placed_request\<lparr>status := CANCELLED\<rparr>]\<rparr>"
  by (simp_all add: overlap_cancelled_def overlap_stored_facts CancelOrder_def get_order_def
        update_order_def update_row_def cancel_order_on_solana_def reads_return_def
        calls_return_def placed_request_fields Let_def)

lemma overlap_settled_status:
  "map status (orders_table (overlap_settled settled_answer)) = [EXECUTED]"
  "map status (orders_table (overlap_settled (ChainRaises e))) = [FAILED]"
  by (simp_all add: overlap_settled_def overlap_cancelled_facts place_order_after_execution_def
        execute_order_def settled_answer_def dict_item_def update_order_def update_row_def
        calls_return_def placed_request_fields Let_def)

lemma stale_cache_facts:
  "map status (orders_table stale_cache_state) = [EXECUTED]"
  "redis stale_cache_state (order_key ''o1'') = Some placed_request"
  "orders_table stale_cache_state =
     [placed_request\<lparr>status := EXECUTED, executed_price := 2, executed_amount := 1,
                     signature := ''5sig''\<rparr>]"
  using placed_request_valid
  by (simp_all add: stale_cache_state_def PlaceOrder_def place_order_until_execution_def
        place_order_after_execution_def store_order_def update_order_def update_row_def
        execute_order_def settled_answer_def dict_item_def calls_return_def
        cache_write_fails_def initial_trading_state_def Let_def placed_request_def)

lemma stale_cache_cancel:
  "fst (CancelOrder stale_cache_state ''o1'' reads_return calls_return)
     = response True ''Order cancelled successfully''"
  "map status (orders_table (snd (CancelOrder stale_cache_state ''o1'' reads_return calls_return)))
     = [CANCELLED]"
  by (simp_all add: CancelOrder_def get_order_def stale_cache_facts update_order_def
        update_row_def cancel_order_on_solana_def reads_return_def calls_return_def
        placed_request_fields Let_def)

text \<open>
  Claim C2 is the lifecycle the handlers aim at, and \<open>CancelOrder\<close> tests the status
  before it writes; the update that ends \<open>PlaceOrder\<close> does not. A placed order waits
  for the chain client with its row \<open>PENDING\<close>; \<open>CancelOrder\<close> succeeds meanwhile and
  the row is \<open>CANCELLED\<close>; the chain client answers and the row becomes \<open>EXECUTED\<close>, or
  \<open>FAILED\<close> when the client raises. And when the cache write of the last update of
  \<open>PlaceOrder\<close> fails, the row is \<open>EXECUTED\<close> while the cache still says \<open>PENDING\<close>:
  \<open>CancelOrder\<close> on that order succeeds and the row becomes \<open>CANCELLED\<close>.
\<close>

theorem terminal_status_overwritten:
  "fst (place_order_until_execution initial_trading_state example_order ''o1'' 100
          (RiskResult True []) calls_return) = AwaitsExecution placed_request
   \<and> map status (orders_table overlap_stored) = [PENDING]
   \<and> success (fst (CancelOrder overlap_stored ''o1'' reads_return calls_return))
   \<and> map status (orders_table overlap_cancelled) = [CANCELLED]
   \<and> map status (orders_table (overlap_settled settled_answer)) = [EXECUTED]
   \<and> map status (orders_table (overlap_settled (ChainRaises ''rpc down''))) = [FAILED]
   \<and> map status (orders_table stale_cache_state) = [EXECUTED]
   \<and> map_option status (redis stale_cache_state (order_key ''o1'')) = Some PENDING
   \<and> success (fst (CancelOrder stale_cache_state ''o1'' reads_return calls_return))
   \<and> map status (orders_table (snd (CancelOrder stale_cache_state ''o1'' reads_return calls_return)))
       = [CANCELLED]"
proof -
  have stored: "map status (orders_table overlap_stored) = [PENDING]"
    by (simp add: overlap_stored_facts(2) placed_request_fields)
  have cancelled: "success (fst (CancelOrder overlap_stored ''o1'' reads_return calls_return))"
    by (simp add: overlap_cancelled_facts(1) response_def)
  have after: "map status (orders_table overlap_cancelled) = [CANCELLED]"
    by (simp add: overlap_cancelled_facts(2))
  have stale: "map_option status (redis stale_cache_state (order_key ''o1'')) = Some PENDING"
    by (simp add: stale_cache_facts(2) placed_request_fields)
  have again: "success (fst (CancelOrder stale_cache_state ''o1'' reads_return calls_return))"
    by (simp add: stale_cache_cancel(1) response_def)
  from overlap_stored_facts(1) stored cancelled after overlap_settled_status(1)
       overlap_settled_status(2) [of "''rpc down''"] stale_cache_facts(1) stale again
       stale_cache_cancel(2)
  show ?thesis by (intro conjI)
qed

text \<open>The update that ends \<open>PlaceOrder\<close> sets the status of every row with the id of
  the request, whatever status the row has.\<close>

lemma settlement_ignores_status:
  assumes "db_execute io = Returns"
      and "row \<in> set (orders_table (snd (place_order_after_execution s request answer io)))"
      and "order_id row = order_id request"
  shows "status row = EXECUTED \<or> status row = FAILED"
  using assms
  by (cases "execute_order answer"; cases "redis_set io")
     (auto simp add: place_order_after_execution_def update_order_def update_row_def Let_def)

text \<open>\<open>CancelOrder\<close> refuses an order that \<open>_get_order\<close> returns with a status other
  than \<open>PENDING\<close>, and writes nothing to the table.\<close>

lemma cancel_refused:
  assumes "fst (get_order s oid io_read) = Some order" and "status order \<noteq> PENDING"
  shows "CancelOrder s oid io_read io_update
           = (response False ''Order cannot be cancelled'', snd (get_order s oid io_read))"
    and "orders_table (snd (CancelOrder s oid io_read io_update)) = orders_table s"
proof -
  show refused: "CancelOrder s oid io_read io_update
           = (response False ''Order cannot be cancelled'', snd (get_order s oid io_read))"
    using assms by (cases "get_order s oid io_read") (simp add: CancelOrder_def)
  have "orders_table (snd (get_order s oid io_read)) = orders_table s"
    by (simp add: get_order_def split: call_outcome.splits option.splits)
  with refused show "orders_table (snd (CancelOrder s oid io_read io_update)) = orders_table s"
    by simp
qed

end
